theory Spec2Isabelle
  imports Complex_Main "HOL-Library.Sublist"
begin

section \<open>Python values, exceptions and strings\<close>

text \<open>
  The embedding follows \<^verbatim>\<open>src/evaluator/metric_collectors/fac_metric_collector.py\<close>.
  A Python \<^verbatim>\<open>str\<close> is a \<^typ>\<open>string\<close>: the UTF-8 bytes of the text. Every string the
  collector searches for (\<^verbatim>\<open>"unsolved"\<close>, \<^verbatim>\<open>"solved"\<close>, \<^verbatim>\<open>"Answer Status:"\<close>, the four
  payload keys) is ASCII, and UTF-8 never encodes a non-ASCII code point with a byte below
  128, so an ASCII needle occurs in the bytes exactly where it occurs in the code points.

  An exception is a value: its class name and the text that \<^verbatim>\<open>str(e)\<close> gives. Only
  subclasses of \<^verbatim>\<open>Exception\<close> are modelled (the source catches nothing else). The texts
  of the exceptions the interpreter itself raises are CPython's; no statement below depends
  on their wording.
\<close>

datatype py_exception = PyException (exc_class: string) (exc_text: string)

text \<open>
  What \<^verbatim>\<open>response.json()\<close> can return: any JSON value. A float is carried as the text
  \<^verbatim>\<open>repr\<close> prints for it, the only use the collector makes of one; a dict is carried as
  its items in insertion order.
\<close>

datatype pyval =
    PNone
  | PBool bool
  | PInt int
  | PFloat string
  | PStr string
  | PList "pyval list"
  | PDict "(string \<times> pyval) list"

definition bind_exc :: "py_exception + 'a \<Rightarrow> ('a \<Rightarrow> py_exception + 'b) \<Rightarrow> py_exception + 'b" where
  "bind_exc m f = (case m of Inl e \<Rightarrow> Inl e | Inr x \<Rightarrow> f x)"

definition try_except :: "py_exception + 'a \<Rightarrow> (py_exception \<Rightarrow> py_exception + 'a) \<Rightarrow> py_exception + 'a" where
  \<comment> \<open>\<^verbatim>\<open>try: body  except Exception as e: handler\<close>\<close>
  "try_except body handler = (case body of Inl e \<Rightarrow> handler e | Inr x \<Rightarrow> Inr x)"

definition call_raising :: "py_exception option \<Rightarrow> py_exception + unit" where
  \<comment> \<open>a call made for its effect only: \<open>None\<close> when it returns, \<open>Some e\<close> when it raises \<open>e\<close>\<close>
  "call_raising r = (case r of None \<Rightarrow> Inr () | Some e \<Rightarrow> Inl e)"

subsection \<open>\<^verbatim>\<open>str.lower\<close>, \<^verbatim>\<open>str.strip\<close>, \<^verbatim>\<open>in\<close>, \<^verbatim>\<open>str.rfind\<close>, slicing\<close>

text \<open>
  \<^verbatim>\<open>str.lower\<close> maps \<^verbatim>\<open>A\<close>..\<^verbatim>\<open>Z\<close> to \<^verbatim>\<open>a\<close>..\<^verbatim>\<open>z\<close>. On a non-ASCII code point it yields
  non-ASCII code points again, except for U+212A (to \<^verbatim>\<open>k\<close>) and U+0130 (to \<^verbatim>\<open>i\<close> and
  U+0307); neither letter occurs in the words searched for, so leaving the bytes from 128 on
  unchanged gives the same search results. \<^verbatim>\<open>str.strip\<close> removes leading and trailing
  whitespace; the ASCII whitespace of a \<^verbatim>\<open>str\<close> is 9..13 and 28..32.
\<close>

definition py_lower_char :: "char \<Rightarrow> char" where
  "py_lower_char c =
     (let n = (of_char c :: nat) in if 65 \<le> n \<and> n \<le> 90 then char_of (n + 32) else c)"

definition py_lower :: "string \<Rightarrow> string" where
  "py_lower s = map py_lower_char s"

definition py_isspace :: "char \<Rightarrow> bool" where
  "py_isspace c = (let n = (of_char c :: nat) in (9 \<le> n \<and> n \<le> 13) \<or> (28 \<le> n \<and> n \<le> 32))"

definition py_strip :: "string \<Rightarrow> string" where
  "py_strip s = rev (dropWhile py_isspace (rev (dropWhile py_isspace s)))"

fun py_in :: "string \<Rightarrow> string \<Rightarrow> bool" where
  \<comment> \<open>\<^verbatim>\<open>needle in hay\<close> on two strings\<close>
  "py_in needle [] = (needle = [])"
| "py_in needle (c # cs) = (prefix needle (c # cs) \<or> py_in needle cs)"

fun py_rfind_from :: "nat \<Rightarrow> string \<Rightarrow> string \<Rightarrow> int" where
  \<comment> \<open>the highest index from \<open>i\<close> on at which \<open>needle\<close> starts in the rest \<open>hay\<close>, or \<open>-1\<close>\<close>
  "py_rfind_from i needle [] = (if needle = [] then int i else - 1)"
| "py_rfind_from i needle (c # cs) =
     (let later = py_rfind_from (Suc i) needle cs
      in if later \<noteq> - 1 then later
         else if prefix needle (c # cs) then int i else - 1)"

definition py_rfind :: "string \<Rightarrow> string \<Rightarrow> int" where
  \<comment> \<open>\<^verbatim>\<open>hay.rfind(needle)\<close>\<close>
  "py_rfind hay needle = py_rfind_from 0 needle hay"

definition py_slice_from :: "string \<Rightarrow> int \<Rightarrow> string" where
  \<comment> \<open>\<^verbatim>\<open>s[i:]\<close>: a negative start counts from the end and is clamped at the beginning\<close>
  "py_slice_from s i =
     (if i < 0 then drop (nat (max 0 (int (length s) + i))) s else drop (nat i) s)"

subsection \<open>\<^verbatim>\<open>str\<close> and \<^verbatim>\<open>repr\<close>\<close>

fun py_str_nat :: "nat \<Rightarrow> string" where
  "py_str_nat n =
     (if n < 10 then [''0123456789'' ! n]
      else py_str_nat (n div 10) @ [''0123456789'' ! (n mod 10)])"

definition py_str_int :: "int \<Rightarrow> string" where
  "py_str_int i = (if i < 0 then ''-'' @ py_str_nat (nat (- i)) else py_str_nat (nat i))"

definition py_repr_char :: "char \<Rightarrow> char \<Rightarrow> string" where
  \<comment> \<open>one character inside a \<^verbatim>\<open>repr\<close> delimited by \<open>quote\<close>; the bytes from 128 on are kept\<close>
  "py_repr_char quote c =
     (let n = (of_char c :: nat) in
      if c = quote \<or> c = CHR 0x5C then [CHR 0x5C, c]
      else if n = 9 then [CHR 0x5C, CHR ''t'']
      else if n = 10 then [CHR 0x5C, CHR ''n'']
      else if n = 13 then [CHR 0x5C, CHR ''r'']
      else if n < 32 \<or> n = 127 then
        [CHR 0x5C, CHR ''x'', ''0123456789abcdef'' ! (n div 16), ''0123456789abcdef'' ! (n mod 16)]
      else [c])"

definition py_repr_str :: "string \<Rightarrow> string" where
  \<comment> \<open>single quotes, unless the text has a single quote and no double quote\<close>
  "py_repr_str s =
     (let quote = (if CHR 0x27 \<in> set s \<and> CHR 0x22 \<notin> set s then CHR 0x22 else CHR 0x27)
      in [quote] @ concat (map (py_repr_char quote) s) @ [quote])"

fun py_join :: "string \<Rightarrow> string list \<Rightarrow> string" where
  "py_join sep [] = []"
| "py_join sep [x] = x"
| "py_join sep (x # y # ys) = x @ sep @ py_join sep (y # ys)"

fun py_repr :: "pyval \<Rightarrow> string" where
  "py_repr PNone = ''None''"
| "py_repr (PBool b) = (if b then ''True'' else ''False'')"
| "py_repr (PInt i) = py_str_int i"
| "py_repr (PFloat r) = r"
| "py_repr (PStr s) = py_repr_str s"
| "py_repr (PList xs) = ''['' @ py_join '', '' (map py_repr xs) @ '']''"
| "py_repr (PDict kvs) =
     ''{'' @ py_join '', '' (map (\<lambda>kv. py_repr_str (fst kv) @ '': '' @ py_repr (snd kv)) kvs) @ ''}''"

definition py_str :: "pyval \<Rightarrow> string" where
  \<comment> \<open>\<^verbatim>\<open>str(v)\<close>: a string is itself, every other value is its \<^verbatim>\<open>repr\<close>\<close>
  "py_str v = (case v of PStr s \<Rightarrow> s | _ \<Rightarrow> py_repr v)"

subsection \<open>Membership, subscription and the string methods on a JSON value\<close>

definition py_quoted :: "string \<Rightarrow> string" where
  "py_quoted s = [CHR 0x27] @ s @ [CHR 0x27]"

definition py_type_name :: "pyval \<Rightarrow> string" where
  "py_type_name v =
     (case v of PNone \<Rightarrow> ''NoneType'' | PBool _ \<Rightarrow> ''bool'' | PInt _ \<Rightarrow> ''int''
      | PFloat _ \<Rightarrow> ''float'' | PStr _ \<Rightarrow> ''str'' | PList _ \<Rightarrow> ''list'' | PDict _ \<Rightarrow> ''dict'')"

definition py_contains :: "string \<Rightarrow> pyval \<Rightarrow> py_exception + bool" where
  \<comment> \<open>\<^verbatim>\<open>key in v\<close> for a string \<open>key\<close>: a key test on a dict, an element test on a list,
      a substring test on a string, a \<^verbatim>\<open>TypeError\<close> on anything else\<close>
  \<open>py_contains key v =
     (case v of
        PDict kvs \<Rightarrow> Inr (key \<in> set (map fst kvs))
      | PList xs \<Rightarrow> Inr (PStr key \<in> set xs)
      | PStr s \<Rightarrow> Inr (py_in key s)
      | _ \<Rightarrow> Inl (PyException ''TypeError''
                 (''argument of type '' @ py_quoted (py_type_name v) @ '' is not iterable'')))\<close>

definition py_getitem :: "pyval \<Rightarrow> string \<Rightarrow> py_exception + pyval" where
  \<comment> \<open>\<^verbatim>\<open>v[key]\<close> for a string \<open>key\<close>\<close>
  \<open>py_getitem v key =
     (case v of
        PDict kvs \<Rightarrow>
          (case map_of kvs key of
             Some x \<Rightarrow> Inr x
           | None \<Rightarrow> Inl (PyException ''KeyError'' (py_repr_str key)))
      | PList _ \<Rightarrow> Inl (PyException ''TypeError'' ''list indices must be integers or slices, not str'')
      | PStr _ \<Rightarrow> Inl (PyException ''TypeError'' (''string indices must be integers, not '' @ py_quoted ''str''))
      | _ \<Rightarrow> Inl (PyException ''TypeError''
                 (py_quoted (py_type_name v) @ '' object is not subscriptable'')))\<close>

definition no_attribute :: "pyval \<Rightarrow> string \<Rightarrow> py_exception" where
  \<open>no_attribute v name =
     PyException ''AttributeError''
       (py_quoted (py_type_name v) @ '' object has no attribute '' @ py_quoted name)\<close>

section \<open>The judge prompt and \<^verbatim>\<open>str.format\<close>\<close>

text \<open>
  \<^verbatim>\<open>FAC_JUDGE_PROMPT\<close> is the value of the literal of lines 23 to 79 (its \<^verbatim>\<open>\n\<close> escapes are
  line feeds, the text has no backslash), written here in three pieces around its two
  replacement fields.
\<close>

definition prompt_head :: string where
  \<comment> \<open>lines 23 to 69 of the source, up to the field \<^verbatim>\<open>{query}\<close>\<close>
  \<open>prompt_head = concat [
     ''\<newline>'',
     ''Given a query and an answer provided by an AI agent, you now need to determine the answer_status of whether the well solved the query, i.e. whether the need of the query is satisfied. You need to output "Unsolved" or "Solved" and your reason. You must obey the following rules:\<newline>'',
     ''\<newline>'',
     ''You should response "Solved" when:\<newline>'',
     ''    1. If the answer well provides the information needed by the query, then it is "Solved". The answer does not need to be perfect, and it only needs to make a genuine attempt to address the query.\<newline>'',
     [CHR 0x09] @ ''2.'' @ [CHR 0x09] @ ''Consider only Completeness:\<newline>'',
     [CHR 0x09] @ ''    '' @ [CHR 0xE2, CHR 0x80, CHR 0xA2, CHR 0x09] @ ''The answer attempts to address every part of the query, regardless of whether the information provided is factually correct or accurate, unless there is a severe factual error.\<newline>'',
     [CHR 0x09] @ ''3.'' @ [CHR 0x09] @ ''For Multi-part Queries:\<newline>'',
     [CHR 0x09] @ ''    '' @ [CHR 0xE2, CHR 0x80, CHR 0xA2, CHR 0x09] @ ''For queries with multiple parts, all parts must be addressed for the answer to be considered '' @ [CHR 0xE2, CHR 0x80, CHR 0x9C] @ ''Solved'' @ [CHR 0xE2, CHR 0x80, CHR 0x9D] @ ''.\<newline>'',
     [CHR 0x09] @ ''4.'' @ [CHR 0x09] @ ''Genuine Attempt :\<newline>'',
     [CHR 0x09] @ ''    '' @ [CHR 0xE2, CHR 0x80, CHR 0xA2, CHR 0x09] @ ''The answer makes a genuine attempt to provide the requested information or perform the requested task for all parts of the query. This includes scenarios where the answer concludes that '' @ [CHR 0xE2, CHR 0x80, CHR 0x9C] @ ''nothing'' @ [CHR 0xE2, CHR 0x80, CHR 0x9D] @ '' is a reasonable response (e.g., when the requested information does not exist or is not available, or a possible answer of the query is nothing and the model answers nothing after reasonable attempts).\<newline>'',
     ''\<newline>'',
     ''You should response "Unsolved" when:\<newline>'',
     ''    1.'' @ [CHR 0x09] @ ''Refusal, Apology, or Non-engagement:\<newline>'',
     [CHR 0x09] @ ''    '' @ [CHR 0xE2, CHR 0x80, CHR 0xA2, CHR 0x09] @ ''The answer includes a refusal or apology (e.g., '' @ [CHR 0xE2, CHR 0x80, CHR 0x9C] @ ''I\'m sorry, I can\'t help with that'' @ [CHR 0xE2, CHR 0x80, CHR 0x9D] @ '').\<newline>'',
     [CHR 0x09] @ ''    '' @ [CHR 0xE2, CHR 0x80, CHR 0xA2, CHR 0x09] @ ''The answer does not directly engage with or address the query in any way.\<newline>'',
     [CHR 0x09] @ ''2.'' @ [CHR 0x09] @ ''Multi-part Queries:\<newline>'',
     [CHR 0x09] @ ''    '' @ [CHR 0xE2, CHR 0x80, CHR 0xA2, CHR 0x09] @ ''If the query has multiple parts and at least one part is not well addressed.\<newline>'',
     ''    3. Severe Factual Error:\<newline>'',
     ''        '' @ [CHR 0xE2, CHR 0x80, CHR 0xA2] @ ''   If the answer contains a severe factual error that significantly impacts the usefulness of the information provided.\<newline>'',
     ''\<newline>'',
     ''\<newline>'',
     ''Additional Guidelines:\<newline>'',
     ''    1. VERY IMPORTANT: DO NOT BE TOO HARSH. The model does not need to be perfect, and the answer does not need to be flawless. It only needs to make a genuine attempt to address the query.\<newline>'',
     ''    1. DO NOT evaluate factual accuracy or correctness of the information provided based on your knowledge. Assume that the information provided is accurate and focus solely on whether the answer attempts to address all parts of the query, unless there is a severe factual error that conficts common knowledge.\<newline>'',
     [CHR 0x09] @ ''2.'' @ [CHR 0x09] @ ''Focus on Final Answer: Only the final answer is provided and should be considered, disregarding any processes that were used to generate the answer. You only need to judge whether the information need is satisfied.\<newline>'',
     [CHR 0x09] @ ''3.'' @ [CHR 0x09] @ ''Answer Completion: The agent does not need to detail how it arrived at the answer, only that the answer itself is complete and attempts to address the query.\<newline>'',
     ''\<newline>'',
     ''Here are some examples:\<newline>'',
     ''\<newline>'',
     ''Query 1: I\'m planning a movie night with my friends and we want to watch a horror film. Can you recommend some popular horror movies available on streaming platforms in the US? Also, provide the runtime and IMDb ratings for these movies.\<newline>'',
     ''Answer 1: Here are some popular horror movies available on streaming platforms in the US:\<newline>'',
     ''\<newline>'',
     ''1. Knives Out\<newline>'',
     ''   - Runtime: 130 minutes\<newline>'',
     ''   - IMDb Rating: 7.9/10\<newline>'',
     ''   - Available on: Netflix, Prime Video, Hulu, Amazon Prime Video\<newline>'',
     ''\<newline>'',
     ''2. Jumanji: The Next Level\<newline>'',
     ''   - Runtime: 110 minutes\<newline>'',
     ''   - IMDb Rating: 6.7/10\<newline>'',
     ''   - Available on: Hulu, Amazon Prime Video, Netflix\<newline>'',
     ''\<newline>'',
     ''Please note that availability may vary depending on your location and streaming platform subscriptions. Enjoy your movie night!\<newline>'',
     ''Answer Status: Solved\<newline>'',
     ''Reason: The answer addressed all parts of subqueries by providing a list of popular horror movies available on streaming platforms in the US, along with their runtime and IMDb ratings. Whether the film is horror is a factual matter that does not to be checked.\<newline>'',
     ''\<newline>'',
     ''Query 2: I\'m a screenwriter looking for inspiration for my next project. Can you help me find a list of critically acclaimed movies available on streaming platforms in the US? Also, provide me with the streaming sources for the movie \'Citizen Kane\' and the basic information about the cast, including their names and professions.\<newline>'',
     ''Answer 2: The movie \'Citizen Kane\' is available on the following streaming platforms:\<newline>'',
     ''- HBO Max: [Watch on HBO Max](https://play.hbomax.com/feature/urn:hbo:feature:GXduU_gwwz-NvjAEAAAAC)\<newline>'',
     ''- Amazon Prime Video: [Watch on Amazon Prime Video](https://www.amazon.com/Citizen-Kane-Orson-Welles/dp/B000I9YLWG)\<newline>'',
     ''- AppleTV+: [Watch on AppleTV+](https://tv.apple.com/us/movie/citizen-kane/umc.cmc.21zj0v11gnqbbqrebieh0vpk7)\<newline>'',
     ''- Disney+: Available on Disney+\<newline>'',
     ''- Netflix: Available on Netflix\<newline>'',
     ''Answer Status: Unsolved\<newline>'',
     ''Reason: The answer only addressed the first and second part of the query by providing the streaming sources for the movie \'Citizen Kane\' but did not provide information about the cast or a list of critically acclaimed movies available on streaming platforms in the US. The response was incomplete and did not fully address the query.\<newline>'',
     ''\<newline>'',
     ''Query: \<newline>'']\<close>

definition prompt_mid :: string where
  \<comment> \<open>between the two fields, lines 69 to 71\<close>
  \<open>prompt_mid = concat [
     ''\<newline>'',
     ''Answer: \<newline>'']\<close>

definition prompt_tail :: string where
  \<comment> \<open>after the field \<^verbatim>\<open>{answer}\<close>, lines 71 to 79\<close>
  \<open>prompt_tail = concat [
     ''\<newline>'',
     ''\<newline>'',
     ''Now give your reason and answer status in the following format:\<newline>'',
     ''\<newline>'',
     ''Answer Status\<newline>'',
     ''xxx (can only be "Solved" or "Unsolved")\<newline>'',
     ''Reason\<newline>'',
     ''xxx\<newline>'']\<close>

definition FAC_JUDGE_PROMPT :: string where
  "FAC_JUDGE_PROMPT = prompt_head @ ''{query}'' @ prompt_mid @ ''{answer}'' @ prompt_tail"

text \<open>
  \<^verbatim>\<open>template.format(**kwargs)\<close> with string values and no positional argument. The
  template is read from left to right: \<^verbatim>\<open>{{\<close> and \<^verbatim>\<open>}}\<close> are literal braces, a
  single \<^verbatim>\<open>}\<close> or an unclosed \<^verbatim>\<open>{\<close> is a \<^verbatim>\<open>ValueError\<close>, a field is looked up in the
  keyword arguments and replaced by its value, which is not read again. A field with a
  conversion, a format specification, an attribute or an index is outside the part of the
  function modelled here and is flagged as such; the judge prompt has none.
\<close>

definition format_field :: "string \<Rightarrow> (string \<times> string) list \<Rightarrow> py_exception + string" where
  "format_field f kwargs =
     (if list_ex (\<lambda>c. c \<in> set ''{!:.['') f then
        Inl (PyException ''NotModelled'' (''replacement field '' @ f))
      else if list_all (\<lambda>c. c \<in> set ''0123456789'') f then
        Inl (PyException ''IndexError''
               (''Replacement index '' @ (if f = [] then ''0'' else f) @
                '' out of range for positional args tuple''))
      else
        (case map_of kwargs f of
           None \<Rightarrow> Inl (PyException ''KeyError'' (py_repr_str f))
         | Some v \<Rightarrow> Inr v))"

fun py_format_from :: "string option \<Rightarrow> string \<Rightarrow> (string \<times> string) list \<Rightarrow> py_exception + string" where
  \<comment> \<open>first argument: \<open>None\<close> in literal text, \<open>Some f\<close> inside a field of which \<open>f\<close> is read\<close>
  "py_format_from None [] kwargs = Inr []"
| "py_format_from (Some f) [] kwargs =
     Inl (PyException ''ValueError'' (''expected '' @ py_quoted ''}'' @ '' before end of string''))"
| "py_format_from None (c # cs) kwargs =
     (if c = CHR ''{'' then
        (case cs of
           [] \<Rightarrow> Inl (PyException ''ValueError'' (''Single '' @ py_quoted ''{'' @ '' encountered in format string''))
         | d # ds \<Rightarrow>
             if d = CHR ''{'' then
               bind_exc (py_format_from None ds kwargs) (\<lambda>r. Inr (CHR ''{'' # r))
             else py_format_from (Some []) cs kwargs)
      else if c = CHR ''}'' then
        (case cs of
           [] \<Rightarrow> Inl (PyException ''ValueError'' (''Single '' @ py_quoted ''}'' @ '' encountered in format string''))
         | d # ds \<Rightarrow>
             if d = CHR ''}'' then
               bind_exc (py_format_from None ds kwargs) (\<lambda>r. Inr (CHR ''}'' # r))
             else Inl (PyException ''ValueError'' (''Single '' @ py_quoted ''}'' @ '' encountered in format string'')))
      else bind_exc (py_format_from None cs kwargs) (\<lambda>r. Inr (c # r)))"
| "py_format_from (Some f) (c # cs) kwargs =
     (if c = CHR ''}'' then
        bind_exc (format_field f kwargs) (\<lambda>v.
        bind_exc (py_format_from None cs kwargs) (\<lambda>r. Inr (v @ r)))
      else py_format_from (Some (f @ [c])) cs kwargs)"

definition py_format :: "string \<Rightarrow> (string \<times> string) list \<Rightarrow> py_exception + string" where
  "py_format template kwargs = py_format_from None template kwargs"

section \<open>The collector and the world around it\<close>

record query_specification =
  query :: string

record payload =
  prompt :: string
  max_new_tokens :: int
  do_sample :: bool
  top_p :: real

text \<open>
  What the collector reads of the object \<^verbatim>\<open>requests.post\<close> returns: \<^verbatim>\<open>status_code\<close>,
  \<^verbatim>\<open>text\<close> and the outcome of \<^verbatim>\<open>json()\<close>, which raises on a body that is not JSON.
\<close>

record http_response =
  status_code :: int
  response_text :: string
  json :: "py_exception + pyval"

text \<open>The dict \<^verbatim>\<open>evaluate_with_llm_judge\<close> returns, with its two keys.\<close>

record evaluation_result =
  evaluation :: pyval
  is_solved :: bool

text \<open>
  One constructor for each message the collector hands to \<^verbatim>\<open>log\<close> or \<^verbatim>\<open>log_verbose\<close>,
  carrying the values the f-string interpolates.
\<close>

datatype log_message =
    Unclear_evaluation_result string          \<comment> \<open>line 219\<close>
  | Error_parsing_evaluation_result py_exception  \<comment> \<open>line 223\<close>
  | Judge_api_error string                    \<comment> \<open>line 184\<close>
  | Debug_info                                \<comment> \<open>lines 185 and 197\<close>
  | Debug_url string                          \<comment> \<open>lines 186 and 198\<close>
  | Debug_payload payload                     \<comment> \<open>line 187\<close>
  | Debug_response string                     \<comment> \<open>line 188\<close>
  | Judge_call_error string                   \<comment> \<open>line 196\<close>
  | Debug_error py_exception                  \<comment> \<open>line 199\<close>
  | Query_evaluated string bool               \<comment> \<open>line 123\<close>
  | Judge_heading nat                         \<comment> \<open>lines 229 to 231, 235, 236 and 238\<close>
  | Judge_query string                        \<comment> \<open>line 233\<close>
  | Judge_answer string                       \<comment> \<open>line 234\<close>
  | Judge_output pyval                        \<comment> \<open>line 237\<close>
  | Summary real nat nat                      \<comment> \<open>line 252\<close>

text \<open>
  Everything the collector calls and this file does not define is a field of the world
  of one call: the environment, the base class, the two helpers of
  \<^verbatim>\<open>evaluator.utils.utils\<close> that normalise the answer, the HTTP call, and the two log
  functions. A call that can raise returns a sum; a call made for its effect returns
  the exception it raises, if any.
\<close>

record world =
  getenv :: "string \<Rightarrow> string option"
  super_init :: "py_exception option"
  super_set_up :: "py_exception option"
  extract_final_answer_from_response :: "pyval \<Rightarrow> py_exception + string"
  strip_think :: "string \<Rightarrow> py_exception + string"
  requests_post :: "string \<Rightarrow> payload \<Rightarrow> py_exception + http_response"
  log_py :: "log_message \<Rightarrow> py_exception option"
  log_verbose :: "log_message \<Rightarrow> py_exception option"

fun log_each :: "(log_message \<Rightarrow> py_exception option) \<Rightarrow> log_message list \<Rightarrow> py_exception + unit" where
  \<comment> \<open>consecutive calls of one log function; the first that raises ends them\<close>
  "log_each sink [] = Inr ()"
| "log_each sink (m # ms) = bind_exc (call_raising (sink m)) (\<lambda>_. log_each sink ms)"

record collector =
  query_results :: "bool list option"
  judge_model_url :: string

definition FACMetricCollector_init :: "world \<Rightarrow> py_exception + collector" where
  \<comment> \<open>\<^verbatim>\<open>__init__\<close>, lines 81 to 90; \<^verbatim>\<open>not url\<close> holds of \<^verbatim>\<open>None\<close> and of the empty string\<close>
  "FACMetricCollector_init w =
     bind_exc (call_raising (super_init w)) (\<lambda>_.
       (case getenv w ''FAC_JUDGE_MODEL_URL'' of
          None \<Rightarrow>
            Inl (PyException ''ValueError'' ''FAC_JUDGE_MODEL_URL environment variable is required'')
        | Some url \<Rightarrow>
            if url = [] then
              Inl (PyException ''ValueError'' ''FAC_JUDGE_MODEL_URL environment variable is required'')
            else Inr \<lparr>query_results = None, judge_model_url = url\<rparr>))"

definition get_collected_metrics_names :: "string list" where
  "get_collected_metrics_names = [''Average Task Success (FAC Evaluator)'']"

definition set_up :: "world \<Rightarrow> collector \<Rightarrow> py_exception + collector" where
  "set_up w self =
     bind_exc (call_raising (super_set_up w)) (\<lambda>_. Inr (self\<lparr>query_results := Some []\<rparr>))"

definition parse_evaluation_result :: "world \<Rightarrow> pyval \<Rightarrow> py_exception + bool" where
  \<comment> \<open>lines 205 to 224; a value that is no string has no \<^verbatim>\<open>lower\<close>\<close>
  "parse_evaluation_result w evaluation_text =
     try_except
       (case evaluation_text of
          PStr s \<Rightarrow>
            (let text = py_strip (py_lower s) in
             if py_in ''unsolved'' text then Inr False
             else if py_in ''solved'' text then Inr True
             else
               bind_exc (call_raising (log_py w (Unclear_evaluation_result (take 100 s))))
                 (\<lambda>_. Inr False))
        | _ \<Rightarrow> Inl (no_attribute evaluation_text ''lower''))
       (\<lambda>e. bind_exc (call_raising (log_py w (Error_parsing_evaluation_result e)))
               (\<lambda>_. Inr False))"

definition extract_generated_text :: "pyval \<Rightarrow> py_exception + pyval" where
  \<comment> \<open>lines 156 to 167 of \<^verbatim>\<open>evaluate_with_llm_judge\<close>\<close>
  "extract_generated_text result =
     bind_exc (py_contains ''generated_text'' result) (\<lambda>has_generated_text.
       if has_generated_text then py_getitem result ''generated_text''
       else bind_exc (py_contains ''text'' result) (\<lambda>has_text.
         if has_text then py_getitem result ''text''
         else bind_exc (py_contains ''response'' result) (\<lambda>has_response.
           if has_response then py_getitem result ''response''
           else bind_exc (py_contains ''output'' result) (\<lambda>has_output.
             if has_output then py_getitem result ''output''
             else Inr (PStr (py_str result))))))"

definition last_evaluation_part :: "pyval \<Rightarrow> py_exception + pyval" where
  \<comment> \<open>lines 169 to 173 of \<^verbatim>\<open>evaluate_with_llm_judge\<close>; only a string has \<^verbatim>\<open>rfind\<close>\<close>
  "last_evaluation_part generated_text =
     bind_exc (py_contains ''Answer Status:'' generated_text) (\<lambda>found.
       if found then
         (case generated_text of
            PStr s \<Rightarrow>
              (let last_evaluation_start = py_rfind s ''Answer Status:''
               in Inr (PStr (py_slice_from s last_evaluation_start)))
          | _ \<Rightarrow> Inl (no_attribute generated_text ''rfind''))
       else Inr generated_text)"

definition judge_success :: "world \<Rightarrow> http_response \<Rightarrow> py_exception + evaluation_result" where
  \<comment> \<open>the branch \<^verbatim>\<open>response.status_code == 200\<close>, lines 154 to 181\<close>
  "judge_success w response =
     bind_exc (json response) (\<lambda>result.
     bind_exc (extract_generated_text result) (\<lambda>generated_text.
     bind_exc (last_evaluation_part generated_text) (\<lambda>generated_text.
     bind_exc (parse_evaluation_result w generated_text) (\<lambda>solved.
       Inr \<lparr>evaluation = generated_text, is_solved = solved\<rparr>))))"

definition judge_failure ::
  "world \<Rightarrow> collector \<Rightarrow> payload \<Rightarrow> http_response \<Rightarrow> py_exception + evaluation_result" where
  \<comment> \<open>the \<^verbatim>\<open>else\<close> branch, lines 183 to 192\<close>
  "judge_failure w self payload response =
     (let error_msg =
            ''API call failed: '' @ py_str_int (status_code response) @ '' - '' @
            response_text response
      in bind_exc
           (log_each (log_py w)
              [Judge_api_error error_msg, Debug_info, Debug_url (judge_model_url self),
               Debug_payload payload, Debug_response (response_text response)])
           (\<lambda>_. Inr \<lparr>evaluation = PStr (''Answer Status: Unsolved\<newline>Reason: '' @ error_msg),
                      is_solved = False\<rparr>))"

definition judge_exception :: "world \<Rightarrow> collector \<Rightarrow> py_exception \<Rightarrow> py_exception + evaluation_result" where
  \<comment> \<open>the handler \<^verbatim>\<open>except Exception as e\<close>, lines 194 to 203\<close>
  "judge_exception w self e =
     (let error_msg = ''Error calling LLM judge model: '' @ exc_text e
      in bind_exc
           (log_each (log_py w)
              [Judge_call_error error_msg, Debug_info, Debug_url (judge_model_url self),
               Debug_error e])
           (\<lambda>_. Inr \<lparr>evaluation = PStr (''Answer Status: Unsolved\<newline>Reason: '' @ error_msg),
                      is_solved = False\<rparr>))"

definition evaluate_with_llm_judge ::
  "world \<Rightarrow> collector \<Rightarrow> string \<Rightarrow> string \<Rightarrow> py_exception + evaluation_result" where
  \<comment> \<open>lines 131 to 203\<close>
  "evaluate_with_llm_judge w self query_text answer =
     try_except
       (bind_exc (py_format FAC_JUDGE_PROMPT [(''query'', query_text), (''answer'', answer)])
          (\<lambda>prompt_text.
             let payload =
                   \<lparr>prompt = prompt_text, max_new_tokens = 512, do_sample = False, top_p = 1\<rparr>
             in bind_exc (requests_post w (judge_model_url self) payload) (\<lambda>response.
                  if status_code response = 200 then judge_success w response
                  else judge_failure w self payload response)))
       (judge_exception w self)"

definition log_judge_output :: "world \<Rightarrow> string \<Rightarrow> string \<Rightarrow> pyval \<Rightarrow> py_exception + unit" where
  \<comment> \<open>lines 226 to 238: nine calls of \<^verbatim>\<open>log_verbose\<close>\<close>
  "log_judge_output w query_text answer evaluation_text =
     log_each (log_verbose w)
       [Judge_heading 229, Judge_heading 230, Judge_heading 231,
        Judge_query query_text, Judge_answer answer,
        Judge_heading 235, Judge_heading 236, Judge_output evaluation_text, Judge_heading 238]"

definition append_result :: "collector \<Rightarrow> bool \<Rightarrow> py_exception + collector" where
  \<comment> \<open>\<^verbatim>\<open>self.query_results.append(b)\<close>; before \<^verbatim>\<open>set_up\<close> the attribute is \<^verbatim>\<open>None\<close>\<close>
  "append_result self b =
     (case query_results self of
        None \<Rightarrow> Inl (no_attribute PNone ''append'')
      | Some results \<Rightarrow> Inr (self\<lparr>query_results := Some (results @ [b])\<rparr>))"

definition measurement_body ::
  "world \<Rightarrow> collector \<Rightarrow> query_specification \<Rightarrow> pyval \<Rightarrow> (py_exception \<times> collector) + collector" where
  \<comment> \<open>the \<^verbatim>\<open>try\<close> block of \<^verbatim>\<open>register_measurement\<close>, lines 109 to 125: the collector it
      ends with, or the exception raised together with the collector as it is then\<close>
  "measurement_body w self query_spec response =
     (let query_text = query query_spec in
      case bind_exc (extract_final_answer_from_response w response) (strip_think w) of
        Inl e \<Rightarrow> Inl (e, self)
      | Inr final_answer \<Rightarrow>
          (case evaluate_with_llm_judge w self query_text final_answer of
             Inl e \<Rightarrow> Inl (e, self)
           | Inr evaluation_result \<Rightarrow>
               (case append_result self (is_solved evaluation_result) of
                  Inl e \<Rightarrow> Inl (e, self)
                | Inr self' \<Rightarrow>
                    (case bind_exc
                            (call_raising
                               (log_verbose w
                                  (Query_evaluated (take 50 query_text) (is_solved evaluation_result))))
                            (\<lambda>_. log_judge_output w query_text final_answer
                                   (evaluation evaluation_result)) of
                       Inl e \<Rightarrow> Inl (e, self')
                     | Inr _ \<Rightarrow> Inr self'))))"

definition register_measurement ::
  "world \<Rightarrow> collector \<Rightarrow> query_specification \<Rightarrow> pyval \<Rightarrow> py_exception + collector" where
  \<comment> \<open>lines 106 to 129: the handler appends \<^verbatim>\<open>False\<close> to the list as the \<^verbatim>\<open>try\<close> block left it\<close>
  "register_measurement w self query_spec response =
     (case measurement_body w self query_spec response of
        Inr self' \<Rightarrow> Inr self'
      | Inl (e, self') \<Rightarrow> append_result self' False)"

fun run_measurements ::
  "collector \<Rightarrow> (world \<times> query_specification \<times> pyval) list \<Rightarrow> py_exception + collector" where
  \<comment> \<open>one \<^verbatim>\<open>register_measurement\<close> call after the other, each in the world it meets\<close>
  "run_measurements self [] = Inr self"
| "run_measurements self ((w, query_spec, response) # calls) =
     bind_exc (register_measurement w self query_spec response)
       (\<lambda>self'. run_measurements self' calls)"

text \<open>
  \<^verbatim>\<open>solved_queries / total_queries\<close> is Python's true division of two ints, the double
  nearest to the quotient; the model keeps the quotient itself, a real number.
\<close>

definition report_results :: "world \<Rightarrow> collector \<Rightarrow> py_exception + (string \<times> real) list" where
  \<comment> \<open>lines 244 to 258; the dict returned has one item\<close>
  "report_results w self =
     (case query_results self of
        None \<Rightarrow>
          Inl (PyException ''TypeError'' (''object of type '' @ py_quoted ''NoneType'' @ '' has no len()''))
      | Some results \<Rightarrow>
          (let total_queries = length results;
               solved_queries = sum_list (map (\<lambda>is_solved. 1) (filter (\<lambda>is_solved. is_solved) results));
               solve_rate = (if total_queries > 0 then real solved_queries / real total_queries else 0)
           in bind_exc (call_raising (log_py w (Summary solve_rate solved_queries total_queries)))
                (\<lambda>_. Inr [(''Average Task Success (FAC Evaluator)'', solve_rate)])))"

section \<open>What the specification says, and example worlds\<close>

text \<open>
  The verdict as the specification words it: case-fold and trim the text; if
  \<^verbatim>\<open>unsolved\<close> occurs anywhere the verdict is false, else if \<^verbatim>\<open>solved\<close> occurs anywhere
  it is true, else it is false. Occurrence is \<^const>\<open>sublist\<close>: some text before, the
  word, some text after.
\<close>

definition spec_parse :: "string \<Rightarrow> bool" where
  "spec_parse t =
     (let text = py_strip (py_lower t) in
      if sublist ''unsolved'' text then False
      else if sublist ''solved'' text then True
      else False)"

text \<open>The request sent for a query and an answer, and the result that reports a failure.\<close>

definition judge_request :: "string \<Rightarrow> string \<Rightarrow> payload" where
  "judge_request q a =
     \<lparr>prompt = prompt_head @ q @ prompt_mid @ a @ prompt_tail,
      max_new_tokens = 512, do_sample = False, top_p = 1\<rparr>"

definition unsolved_evaluation :: "string \<Rightarrow> evaluation_result" where
  "unsolved_evaluation reason =
     \<lparr>evaluation = PStr (''Answer Status: Unsolved\<newline>Reason: '' @ reason), is_solved = False\<rparr>"

text \<open>
  A world for the examples: the endpoint is configured, the helpers return, both log
  functions return, and the HTTP call has the given outcome.
\<close>

definition example_world :: "py_exception + http_response \<Rightarrow> world" where
  "example_world outcome =
     \<lparr>getenv = (\<lambda>name. if name = ''FAC_JUDGE_MODEL_URL'' then Some ''http://judge.example/generate''
                        else None),
      super_init = None,
      super_set_up = None,
      extract_final_answer_from_response = (\<lambda>response. Inr (py_str response)),
      strip_think = (\<lambda>answer. Inr answer),
      requests_post = (\<lambda>url request. outcome),
      log_py = (\<lambda>m. None),
      log_verbose = (\<lambda>m. None)\<rparr>"

definition example_collector :: collector where
  "example_collector = \<lparr>query_results = Some [], judge_model_url = ''http://judge.example/generate''\<rparr>"

definition example_ok_response :: "string \<Rightarrow> pyval \<Rightarrow> http_response" where
  "example_ok_response body result = \<lparr>status_code = 200, response_text = body, json = Inr result\<rparr>"

text \<open>A judge text that repeats an example before its own verdict.\<close>

definition echo_text :: string where
  "echo_text = ''Answer Status: Solved\<newline>Reason: an echoed example\<newline>Answer Status: Unsolved\<newline>Reason: incomplete''"

text \<open>A judge that answers Solved, and a world in which \<^verbatim>\<open>log_verbose\<close> raises on the
  message of line 123, as a stream that cannot encode its emoji does.\<close>

definition solved_body :: string where
  \<comment> \<open>the body \<^verbatim>\<open>{"text": "Answer Status\nSolved\nReason: complete"}\<close> as sent\<close>
  \<open>solved_body =
     ''{"text": "Answer Status'' @ [CHR 0x5C] @ ''nSolved'' @ [CHR 0x5C] @ ''nReason: complete"}''\<close>

definition solved_response :: http_response where
  "solved_response =
     \<lparr>status_code = 200, response_text = solved_body,
      json = Inr (PDict [(''text'', PStr ''Answer Status\<newline>Solved\<newline>Reason: complete'')])\<rparr>"

definition verbose_failure_world :: world where
  "verbose_failure_world =
     (example_world (Inr solved_response))
     \<lparr>log_verbose :=
        (\<lambda>m. case m of
               Query_evaluated _ _ \<Rightarrow>
                 Some (PyException ''UnicodeEncodeError'' ''codec cannot encode character'')
             | _ \<Rightarrow> None)\<rparr>"

section \<open>Occurrence of a word in a text\<close>

lemma py_in_sublist: "py_in needle hay \<longleftrightarrow> sublist needle hay"
  by (induction hay) (simp_all add: sublist_Cons_right)

lemma sublist_dropWhile_keep:
  assumes "sublist n s" "n \<noteq> []" "\<not> P (hd n)"
  shows "sublist n (dropWhile P s)"
proof -
  from assms(1) obtain ps ss where s: "s = ps @ n @ ss"
    by (auto simp: sublist_def)
  show ?thesis
  proof (cases "\<forall>x\<in>set ps. P x")
    case True
    from assms(2,3) have "dropWhile P (n @ ss) = n @ ss"
      by (cases n) auto
    with True s have "dropWhile P s = n @ ss"
      by (simp add: dropWhile_append2)
    then show ?thesis by simp
  next
    case False
    then have "dropWhile P s = dropWhile P ps @ n @ ss"
      using s by (auto simp: dropWhile_append1)
    then show ?thesis by simp
  qed
qed

lemma sublist_py_strip:
  assumes "n \<noteq> []" "\<not> py_isspace (hd n)" "\<not> py_isspace (last n)"
  shows "sublist n (py_strip s) \<longleftrightarrow> sublist n s"
proof
  assume "sublist n (py_strip s)"
  then have "sublist (rev n) (dropWhile py_isspace (rev (dropWhile py_isspace s)))"
    unfolding py_strip_def by (simp only: sublist_rev_right)
  then have "sublist (rev n) (rev (dropWhile py_isspace s))"
    by (meson sublist_order.order_trans suffix_dropWhile suffix_imp_sublist)
  then have "sublist n (dropWhile py_isspace s)"
    by simp
  then show "sublist n s"
    by (meson sublist_order.order_trans suffix_dropWhile suffix_imp_sublist)
next
  assume "sublist n s"
  then have "sublist n (dropWhile py_isspace s)"
    using assms by (intro sublist_dropWhile_keep)
  then have "sublist (rev n) (rev (dropWhile py_isspace s))"
    by simp
  moreover have "rev n \<noteq> []" "\<not> py_isspace (hd (rev n))"
    using assms by (simp_all add: hd_rev)
  ultimately have "sublist (rev n) (dropWhile py_isspace (rev (dropWhile py_isspace s)))"
    by (intro sublist_dropWhile_keep)
  then show "sublist n (py_strip s)"
    unfolding py_strip_def by (simp only: sublist_rev_right)
qed

lemma py_in_strip_unsolved: "py_in ''unsolved'' (py_strip s) \<longleftrightarrow> sublist ''unsolved'' s"
  by (simp add: py_in_sublist sublist_py_strip py_isspace_def)

lemma py_in_strip_solved: "py_in ''solved'' (py_strip s) \<longleftrightarrow> sublist ''solved'' s"
  by (simp add: py_in_sublist sublist_py_strip py_isspace_def)

lemma parse_str:
  "parse_evaluation_result w (PStr t) =
     (if sublist ''unsolved'' (py_lower t) then Inr False
      else if sublist ''solved'' (py_lower t) then Inr True
      else try_except
             (bind_exc (call_raising (log_py w (Unclear_evaluation_result (take 100 t)))) (\<lambda>_. Inr False))
             (\<lambda>e. bind_exc (call_raising (log_py w (Error_parsing_evaluation_result e))) (\<lambda>_. Inr False)))"
  by (simp add: parse_evaluation_result_def Let_def py_in_strip_unsolved py_in_strip_solved try_except_def)

lemma lower_SOLVED: "py_lower ''SOLVED'' = ''solved''"
  by code_simp

section \<open>The verdict parser\<close>

text \<open>
  C1. For every input string, \<^verbatim>\<open>parse_evaluation_result\<close> lowercases and trims the text
  and returns false if \<^verbatim>\<open>unsolved\<close> occurs in it, otherwise true if \<^verbatim>\<open>solved\<close> occurs in
  it, otherwise false; trimming changes neither occurrence. In the last case the function
  logs a warning first, and the verdict is returned when that call of \<^verbatim>\<open>log\<close> returns.
  \<^verbatim>\<open>parse("SOLVED")\<close> is true, and a text in which \<^verbatim>\<open>unsolved\<close> occurs in any letter case
  gives false.
\<close>

theorem parse_evaluation_result_verdict:
  "(log_py w (Unclear_evaluation_result (take 100 t)) = None \<longrightarrow>
      parse_evaluation_result w (PStr t) = Inr (spec_parse t)
      \<and> spec_parse t = (\<not> sublist ''unsolved'' (py_lower t) \<and> sublist ''solved'' (py_lower t)))
   \<and> parse_evaluation_result w (PStr ''SOLVED'') = Inr True
   \<and> (py_lower u = ''unsolved'' \<longrightarrow> parse_evaluation_result w (PStr (pre @ u @ post)) = Inr False)"
proof (intro conjI impI)
  assume "log_py w (Unclear_evaluation_result (take 100 t)) = None"
  then show "parse_evaluation_result w (PStr t) = Inr (spec_parse t)"
    by (simp add: parse_str spec_parse_def py_in_sublist[symmetric] py_in_strip_unsolved py_in_strip_solved
          try_except_def bind_exc_def call_raising_def)
  show "spec_parse t = (\<not> sublist ''unsolved'' (py_lower t) \<and> sublist ''solved'' (py_lower t))"
    by (simp add: spec_parse_def py_in_sublist[symmetric] py_in_strip_unsolved py_in_strip_solved)
next
  have "\<not> sublist ''unsolved'' ''solved''"
    by code_simp
  moreover have "sublist ''solved'' ''solved''"
    by simp
  ultimately show "parse_evaluation_result w (PStr ''SOLVED'') = Inr True"
    by (simp only: parse_str lower_SOLVED if_True if_False)
next
  assume "py_lower u = ''unsolved''"
  then have "py_lower (pre @ u @ post) = py_lower pre @ ''unsolved'' @ py_lower post"
    by (simp add: py_lower_def)
  then have "sublist ''unsolved'' (py_lower (pre @ u @ post))"
    by (simp only: sublist_appendI)
  then show "parse_evaluation_result w (PStr (pre @ u @ post)) = Inr False"
    by (simp only: parse_str if_True)
qed

theorem parse_evaluation_result_verdict_witness:
  "log_py (example_world (Inl (PyException ''ConnectionError'' ''refused'')))
       (Unclear_evaluation_result (take 100 ''no clear status given'')) = None
   \<and> parse_evaluation_result (example_world (Inl (PyException ''ConnectionError'' ''refused'')))
         (PStr ''no clear status given'') = Inr False
   \<and> py_lower ''UnSolved'' = ''unsolved''
   \<and> parse_evaluation_result (example_world (Inl (PyException ''ConnectionError'' ''refused'')))
         (PStr (''Answer Status\<newline>'' @ ''UnSolved'' @ ''\<newline>Reason: incomplete'')) = Inr False"
proof -
  let ?w = "example_world (Inl (PyException ''ConnectionError'' ''refused''))"
  have quiet: "log_py ?w (Unclear_evaluation_result (take 100 ''no clear status given'')) = None"
    by (simp add: example_world_def)
  have lower: "py_lower ''UnSolved'' = ''unsolved''"
    by code_simp
  have verdict: "spec_parse ''no clear status given'' = False"
    by code_simp
  show ?thesis
    using parse_evaluation_result_verdict
            [of ?w "''no clear status given''" "''UnSolved''" "''Answer Status\<newline>''"
                "''\<newline>Reason: incomplete''"]
          quiet lower verdict
    by simp
qed

section \<open>Filling the judge prompt\<close>

lemma py_format_from_plain:
  assumes "CHR ''{'' \<notin> set xs" "CHR ''}'' \<notin> set xs"
  shows "py_format_from None (xs @ rest) kwargs =
           bind_exc (py_format_from None rest kwargs) (\<lambda>r. Inr (xs @ r))"
  using assms
proof (induction xs)
  case Nil
  then show ?case by (simp add: bind_exc_def split: sum.splits)
next
  case (Cons c cs)
  then show ?case by (simp add: bind_exc_def split: sum.splits)
qed

lemma py_format_from_query:
  "py_format_from None (''{query}'' @ rest) [(''query'', q), (''answer'', a)] =
     bind_exc (py_format_from None rest [(''query'', q), (''answer'', a)]) (\<lambda>r. Inr (q @ r))"
  by (simp add: format_field_def bind_exc_def)

lemma py_format_from_answer:
  "py_format_from None (''{answer}'' @ rest) [(''query'', q), (''answer'', a)] =
     bind_exc (py_format_from None rest [(''query'', q), (''answer'', a)]) (\<lambda>r. Inr (a @ r))"
  by (simp add: format_field_def bind_exc_def)

lemma prompt_head_plain: "CHR ''{'' \<notin> set prompt_head \<and> CHR ''}'' \<notin> set prompt_head"
  by (simp add: prompt_head_def)

lemma prompt_mid_plain: "CHR ''{'' \<notin> set prompt_mid \<and> CHR ''}'' \<notin> set prompt_mid"
  by (simp add: prompt_mid_def)

lemma prompt_tail_plain: "CHR ''{'' \<notin> set prompt_tail \<and> CHR ''}'' \<notin> set prompt_tail"
  by (simp add: prompt_tail_def)

lemma py_format_prompt:
  "py_format FAC_JUDGE_PROMPT [(''query'', q), (''answer'', a)] =
     Inr (prompt_head @ q @ prompt_mid @ a @ prompt_tail)"
proof -
  have tail: "py_format_from None prompt_tail [(''query'', q), (''answer'', a)] = Inr prompt_tail"
    using py_format_from_plain[of prompt_tail "[]"] prompt_tail_plain
    by (simp add: bind_exc_def)
  show ?thesis
    unfolding py_format_def FAC_JUDGE_PROMPT_def
    by (simp only: py_format_from_plain[OF conjunct1[OF prompt_head_plain] conjunct2[OF prompt_head_plain]]
          py_format_from_plain[OF conjunct1[OF prompt_mid_plain] conjunct2[OF prompt_mid_plain]]
          py_format_from_query py_format_from_answer tail bind_exc_def sum.case)
qed

text \<open>
  C7. For every query and every answer, braces and other template syntax in them
  included, filling \<^verbatim>\<open>FAC_JUDGE_PROMPT\<close> does not raise: the result is the template with
  the query in the place of \<^verbatim>\<open>{query}\<close> and the answer in the place of \<^verbatim>\<open>{answer}\<close>,
  each written once and as it is. The template has no brace besides those two fields.
\<close>

theorem judge_prompt_two_slot_fill:
  "py_format FAC_JUDGE_PROMPT [(''query'', q), (''answer'', a)] =
     Inr (prompt_head @ q @ prompt_mid @ a @ prompt_tail)
   \<and> FAC_JUDGE_PROMPT = prompt_head @ ''{query}'' @ prompt_mid @ ''{answer}'' @ prompt_tail
   \<and> CHR ''{'' \<notin> set (prompt_head @ prompt_mid @ prompt_tail)
   \<and> CHR ''}'' \<notin> set (prompt_head @ prompt_mid @ prompt_tail)"
proof (intro conjI)
  show "py_format FAC_JUDGE_PROMPT [(''query'', q), (''answer'', a)] =
          Inr (prompt_head @ q @ prompt_mid @ a @ prompt_tail)"
    by (rule py_format_prompt)
  show "FAC_JUDGE_PROMPT = prompt_head @ ''{query}'' @ prompt_mid @ ''{answer}'' @ prompt_tail"
    by (rule FAC_JUDGE_PROMPT_def)
  show "CHR ''{'' \<notin> set (prompt_head @ prompt_mid @ prompt_tail)"
    using prompt_head_plain prompt_mid_plain prompt_tail_plain by simp
  show "CHR ''}'' \<notin> set (prompt_head @ prompt_mid @ prompt_tail)"
    using prompt_head_plain prompt_mid_plain prompt_tail_plain by simp
qed

theorem judge_prompt_two_slot_fill_witness:
  "py_format FAC_JUDGE_PROMPT [(''query'', ''List {two} colors.''), (''answer'', ''{answer} {0} }{ {query!r}'')] =
     Inr (prompt_head @ ''List {two} colors.'' @ prompt_mid @ ''{answer} {0} }{ {query!r}'' @ prompt_tail)"
  using judge_prompt_two_slot_fill [of "''List {two} colors.''" "''{answer} {0} }{ {query!r}''"]
  by simp

section \<open>The last occurrence of the marker\<close>

lemma py_rfind_from_none: "py_rfind_from i n hay = - 1 \<longleftrightarrow> \<not> sublist n hay"
proof (induction hay arbitrary: i)
  case Nil
  then show ?case by simp
next
  case (Cons c cs)
  then show ?case by (simp add: Let_def sublist_Cons_right)
qed

lemma py_rfind_from_last:
  assumes "sublist n hay" "n \<noteq> []"
  shows "\<exists>k. py_rfind_from i n hay = int (i + k) \<and> prefix n (drop k hay)
             \<and> \<not> sublist n (drop (Suc k) hay)"
  using assms
proof (induction hay arbitrary: i)
  case Nil
  then show ?case by simp
next
  case (Cons c cs)
  show ?case
  proof (cases "sublist n cs")
    case True
    from Cons.IH[OF True Cons.prems(2), of "Suc i"] obtain k where
      k: "py_rfind_from (Suc i) n cs = int (Suc i + k)" "prefix n (drop k cs)"
         "\<not> sublist n (drop (Suc k) cs)"
      by blast
    then have "py_rfind_from i n (c # cs) = int (i + Suc k)"
      by (simp add: Let_def)
    with k show ?thesis
      by (intro exI[of _ "Suc k"]) simp
  next
    case False
    with Cons.prems have pre: "prefix n (c # cs)"
      by (simp add: sublist_Cons_right)
    from False have "py_rfind_from (Suc i) n cs = - 1"
      by (simp add: py_rfind_from_none)
    with pre have "py_rfind_from i n (c # cs) = int (i + 0)"
      by (simp add: Let_def)
    with pre False show ?thesis
      by (intro exI[of _ 0]) simp
  qed
qed

lemma last_evaluation_part_str:
  "(sublist ''Answer Status:'' t \<longrightarrow>
      (\<exists>before rest. t = before @ ''Answer Status:'' @ rest
         \<and> \<not> sublist ''Answer Status:'' (tl (''Answer Status:'' @ rest))
         \<and> last_evaluation_part (PStr t) = Inr (PStr (''Answer Status:'' @ rest))))
   \<and> (\<not> sublist ''Answer Status:'' t \<longrightarrow> last_evaluation_part (PStr t) = Inr (PStr t))"
proof (intro conjI impI)
  assume occ: "sublist ''Answer Status:'' t"
  from py_rfind_from_last[OF occ, of 0] obtain k where
    k: "py_rfind t ''Answer Status:'' = int k" "prefix ''Answer Status:'' (drop k t)"
       "\<not> sublist ''Answer Status:'' (drop (Suc k) t)"
    by (auto simp: py_rfind_def)
  from k(2) obtain rest where rest: "drop k t = ''Answer Status:'' @ rest"
    by (auto simp: prefix_def)
  have "t = take k t @ ''Answer Status:'' @ rest"
    using rest by (metis append_take_drop_id)
  moreover have "tl (''Answer Status:'' @ rest) = drop (Suc k) t"
    using rest by (metis drop_Suc tl_drop)
  moreover have "last_evaluation_part (PStr t) = Inr (PStr (''Answer Status:'' @ rest))"
    using occ k(1) rest
    by (simp add: last_evaluation_part_def py_contains_def bind_exc_def py_in_sublist
          py_slice_from_def del: append.simps)
  ultimately show "\<exists>before rest. t = before @ ''Answer Status:'' @ rest
         \<and> \<not> sublist ''Answer Status:'' (tl (''Answer Status:'' @ rest))
         \<and> last_evaluation_part (PStr t) = Inr (PStr (''Answer Status:'' @ rest))"
    using k(3) by metis
next
  assume "\<not> sublist ''Answer Status:'' t"
  then show "last_evaluation_part (PStr t) = Inr (PStr t)"
    by (simp add: last_evaluation_part_def py_contains_def bind_exc_def py_in_sublist)
qed

section \<open>The judge client\<close>

lemma log_each_quiet: "\<forall>m. sink m = None \<Longrightarrow> log_each sink ms = Inr ()"
  by (induction ms) (simp_all add: bind_exc_def call_raising_def)

lemma judge_exception_quiet:
  "\<forall>m. log_py w m = None \<Longrightarrow>
     judge_exception w self e =
       Inr (unsolved_evaluation (''Error calling LLM judge model: '' @ exc_text e))"
  by (simp add: judge_exception_def call_raising_def bind_exc_def unsolved_evaluation_def Let_def)

lemma judge_failure_quiet:
  "\<forall>m. log_py w m = None \<Longrightarrow>
     judge_failure w self request response =
       Inr (unsolved_evaluation
              (''API call failed: '' @ py_str_int (status_code response) @ '' - '' @
               response_text response))"
  by (simp add: judge_failure_def call_raising_def bind_exc_def unsolved_evaluation_def Let_def)

lemma parse_quiet_str:
  "\<forall>m. log_py w m = None \<Longrightarrow> parse_evaluation_result w (PStr t) = Inr (spec_parse t)"
  by (simp add: parse_str spec_parse_def py_in_sublist[symmetric] py_in_strip_unsolved
        py_in_strip_solved try_except_def bind_exc_def call_raising_def)

lemma evaluate_unfold:
  "evaluate_with_llm_judge w self q a =
     try_except
       (bind_exc (requests_post w (judge_model_url self) (judge_request q a)) (\<lambda>response.
          if status_code response = 200 then judge_success w response
          else judge_failure w self (judge_request q a) response))
       (judge_exception w self)"
  unfolding evaluate_with_llm_judge_def py_format_prompt judge_request_def bind_exc_def Let_def
  by simp



lemma parse_unsolved_word:
  assumes "py_lower u = ''unsolved''"
  shows "parse_evaluation_result w (PStr (before @ u @ rest)) = Inr False"
proof -
  from assms have "py_lower (before @ u @ rest) = py_lower before @ ''unsolved'' @ py_lower rest"
    by (simp add: py_lower_def)
  then have "sublist ''unsolved'' (py_lower (before @ u @ rest))"
    by (simp only: sublist_appendI)
  then show ?thesis
    by (simp only: parse_str if_True)
qed

lemma lower_Unsolved: "py_lower ''Unsolved'' = ''unsolved''"
  by code_simp

lemma parse_unsolved_evaluation:
  "parse_evaluation_result w (evaluation (unsolved_evaluation reason)) = Inr False"
proof -
  have "evaluation (unsolved_evaluation reason) =
          PStr (''Answer Status: '' @ ''Unsolved'' @ (''\<newline>Reason: '' @ reason))"
    by (simp add: unsolved_evaluation_def)
  then show ?thesis
    by (simp only: parse_unsolved_word[OF lower_Unsolved])
qed

lemma log_each_then:
  "bind_exc (log_each sink ms) (\<lambda>_. Inr x) = Inr r \<Longrightarrow> r = x"
  by (cases "log_each sink ms") (simp_all add: bind_exc_def)

lemma judge_exception_result:
  "judge_exception w self e = Inr r \<Longrightarrow>
     r = unsolved_evaluation (''Error calling LLM judge model: '' @ exc_text e)"
  unfolding judge_exception_def Let_def unsolved_evaluation_def
  by (rule log_each_then)

lemma judge_failure_result:
  "judge_failure w self request response = Inr r \<Longrightarrow>
     r = unsolved_evaluation
           (''API call failed: '' @ py_str_int (status_code response) @ '' - '' @
            response_text response)"
  unfolding judge_failure_def Let_def unsolved_evaluation_def
  by (rule log_each_then)

lemma judge_success_result:
  "judge_success w response = Inr r \<Longrightarrow>
     parse_evaluation_result w (evaluation r) = Inr (is_solved r)"
  by (auto simp: judge_success_def bind_exc_def split: sum.splits)

lemma evaluate_result_cases:
  assumes "evaluate_with_llm_judge w self q a = Inr r"
  shows "(\<exists>response. judge_success w response = Inr r) \<or> (\<exists>reason. r = unsolved_evaluation reason)"
  using assms
  by (auto simp: evaluate_unfold try_except_def bind_exc_def
        split: sum.splits if_splits
        dest: judge_exception_result judge_failure_result)

text \<open>
  C9. Whenever \<^verbatim>\<open>evaluate_with_llm_judge\<close> returns a result, parsing its evaluation again
  gives its verdict: \<^verbatim>\<open>parse_evaluation_result(result["evaluation"]) == result["is_solved"]\<close>,
  on the success branch and on every failure branch. The text made for a failure,
  \<^verbatim>\<open>Answer Status: Unsolved\<close> followed by a reason line, parses to false whatever the
  reason says, since \<^verbatim>\<open>unsolved\<close> is looked for first.
\<close>

theorem evaluation_reparses_to_verdict:
  "(evaluate_with_llm_judge w self q a = Inr r \<longrightarrow>
      parse_evaluation_result w (evaluation r) = Inr (is_solved r))
   \<and> parse_evaluation_result w (PStr (''Answer Status: Unsolved\<newline>Reason: '' @ reason)) = Inr False"
proof (intro conjI impI)
  assume "evaluate_with_llm_judge w self q a = Inr r"
  from evaluate_result_cases[OF this]
  show "parse_evaluation_result w (evaluation r) = Inr (is_solved r)"
  proof
    assume "\<exists>response. judge_success w response = Inr r"
    then show ?thesis by (auto dest: judge_success_result)
  next
    assume "\<exists>reason. r = unsolved_evaluation reason"
    then obtain reason' where r: "r = unsolved_evaluation reason'" by blast
    show ?thesis
      unfolding r by (simp add: parse_unsolved_evaluation) (simp add: unsolved_evaluation_def)
  qed
next
  show "parse_evaluation_result w (PStr (''Answer Status: Unsolved\<newline>Reason: '' @ reason)) = Inr False"
    using parse_unsolved_evaluation[of w reason] by (simp add: unsolved_evaluation_def)
qed

theorem evaluation_reparses_to_verdict_witness:
  "evaluate_with_llm_judge (example_world (Inr solved_response)) example_collector
       ''List two colors.'' ''Red and blue.'' =
     Inr \<lparr>evaluation = PStr ''Answer Status\<newline>Solved\<newline>Reason: complete'', is_solved = True\<rparr>
   \<and> parse_evaluation_result (example_world (Inr solved_response))
         (PStr ''Answer Status\<newline>Solved\<newline>Reason: complete'') = Inr True"
proof -
  have run: "evaluate_with_llm_judge (example_world (Inr solved_response)) example_collector
       ''List two colors.'' ''Red and blue.'' =
     Inr \<lparr>evaluation = PStr ''Answer Status\<newline>Solved\<newline>Reason: complete'', is_solved = True\<rparr>"
    unfolding evaluate_unfold by code_simp
  show ?thesis
    using evaluation_reparses_to_verdict
            [of "example_world (Inr solved_response)" example_collector
                "''List two colors.''" "''Red and blue.''"
                "\<lparr>evaluation = PStr ''Answer Status\<newline>Solved\<newline>Reason: complete'', is_solved = True\<rparr>"]
          run
    by simp
qed

text \<open>
  C10. The judge client takes the success branch exactly when the status code is 200.
  For every other code, 201 and 204 included, it returns \<^verbatim>\<open>is_solved = False\<close> and an
  evaluation that carries the status code and the response body. The calls of \<^verbatim>\<open>log\<close>
  that report the failure are taken to return.
\<close>

theorem success_path_only_on_200:
  assumes quiet: "\<forall>m. log_py w m = None"
    and call: "requests_post w (judge_model_url self) (judge_request q a) = Inr response"
  shows "(status_code response = 200 \<longrightarrow>
            evaluate_with_llm_judge w self q a =
              (case judge_success w response of
                 Inr r \<Rightarrow> Inr r
               | Inl e \<Rightarrow> Inr (unsolved_evaluation (''Error calling LLM judge model: '' @ exc_text e))))
       \<and> (status_code response \<noteq> 200 \<longrightarrow>
            evaluate_with_llm_judge w self q a =
              Inr \<lparr>evaluation =
                       PStr (''Answer Status: Unsolved\<newline>Reason: API call failed: '' @
                             py_str_int (status_code response) @ '' - '' @ response_text response),
                    is_solved = False\<rparr>)"
  using call
  by (simp add: evaluate_unfold try_except_def bind_exc_def judge_exception_quiet[OF quiet]
        judge_failure_quiet[OF quiet] unsolved_evaluation_def split: sum.splits)

theorem success_path_only_on_200_witness:
  "(\<forall>m. log_py (example_world (Inr (solved_response\<lparr>status_code := 201\<rparr>))) m = None)
   \<and> requests_post (example_world (Inr (solved_response\<lparr>status_code := 201\<rparr>)))
         (judge_model_url example_collector) (judge_request ''List two colors.'' ''Red and blue.'') =
       Inr (solved_response\<lparr>status_code := 201\<rparr>)
   \<and> status_code (solved_response\<lparr>status_code := 201\<rparr>) \<noteq> 200
   \<and> evaluate_with_llm_judge (example_world (Inr (solved_response\<lparr>status_code := 201\<rparr>)))
         example_collector ''List two colors.'' ''Red and blue.'' =
       Inr \<lparr>evaluation =
               PStr (''Answer Status: Unsolved\<newline>Reason: API call failed: 201 - '' @ solved_body),
            is_solved = False\<rparr>
   \<and> status_code solved_response = 200
   \<and> evaluate_with_llm_judge (example_world (Inr solved_response))
         example_collector ''List two colors.'' ''Red and blue.'' =
       Inr \<lparr>evaluation = PStr ''Answer Status\<newline>Solved\<newline>Reason: complete'', is_solved = True\<rparr>"
proof -
  let ?r = "solved_response\<lparr>status_code := 201\<rparr>"
  have quiet: "\<forall>m. log_py (example_world outcome) m = None" for outcome
    by (simp add: example_world_def)
  have call: "requests_post (example_world (Inr r)) (judge_model_url example_collector)
                (judge_request ''List two colors.'' ''Red and blue.'') = Inr r" for r
    by (simp add: example_world_def)
  have code: "py_str_int 201 = ''201''"
    by code_simp
  have success: "judge_success (example_world (Inr solved_response)) solved_response =
      Inr \<lparr>evaluation = PStr ''Answer Status\<newline>Solved\<newline>Reason: complete'', is_solved = True\<rparr>"
    by code_simp
  show ?thesis
    using success_path_only_on_200 [OF quiet [of "Inr ?r"] call [of ?r]]
          success_path_only_on_200 [OF quiet [of "Inr solved_response"] call [of solved_response]]
          quiet call code success
    by (simp add: solved_response_def)
qed

text \<open>
  C4. On a response with status 200 whose extracted text is a string: if
  \<^verbatim>\<open>Answer Status:\<close> occurs in it, the text handed to the verdict parser, and returned
  as the evaluation, is the part from the last occurrence of the marker on (the marker
  does not occur again after its first character); if the marker does not occur, the
  whole text is handed on unchanged.
\<close>

theorem marker_truncation:
  assumes quiet: "\<forall>m. log_py w m = None"
    and call: "requests_post w (judge_model_url self) (judge_request q a) = Inr response"
    and ok: "status_code response = 200"
    and body: "json response = Inr result"
    and extracted: "extract_generated_text result = Inr (PStr t)"
  shows "(sublist ''Answer Status:'' t \<longrightarrow>
            (\<exists>before rest. t = before @ ''Answer Status:'' @ rest
               \<and> \<not> sublist ''Answer Status:'' (tl (''Answer Status:'' @ rest))
               \<and> parse_evaluation_result w (PStr (''Answer Status:'' @ rest)) =
                   Inr (spec_parse (''Answer Status:'' @ rest))
               \<and> evaluate_with_llm_judge w self q a =
                   Inr \<lparr>evaluation = PStr (''Answer Status:'' @ rest),
                        is_solved = spec_parse (''Answer Status:'' @ rest)\<rparr>))
       \<and> (\<not> sublist ''Answer Status:'' t \<longrightarrow>
            parse_evaluation_result w (PStr t) = Inr (spec_parse t)
            \<and> evaluate_with_llm_judge w self q a =
                Inr \<lparr>evaluation = PStr t, is_solved = spec_parse t\<rparr>)"
proof -
  have eval: "evaluate_with_llm_judge w self q a = Inr \<lparr>evaluation = PStr s, is_solved = spec_parse s\<rparr>"
    if "last_evaluation_part (PStr t) = Inr (PStr s)" for s
    using that call ok body extracted
    by (simp add: evaluate_unfold try_except_def bind_exc_def judge_success_def
          parse_quiet_str[OF quiet])
  show ?thesis
  proof (intro conjI impI)
    assume "sublist ''Answer Status:'' t"
    with last_evaluation_part_str[of t] obtain before rest where
      *: "t = before @ ''Answer Status:'' @ rest"
         "\<not> sublist ''Answer Status:'' (tl (''Answer Status:'' @ rest))"
         "last_evaluation_part (PStr t) = Inr (PStr (''Answer Status:'' @ rest))"
      by blast
    from eval[OF *(3)] * parse_quiet_str[OF quiet]
    show "\<exists>before rest. t = before @ ''Answer Status:'' @ rest
               \<and> \<not> sublist ''Answer Status:'' (tl (''Answer Status:'' @ rest))
               \<and> parse_evaluation_result w (PStr (''Answer Status:'' @ rest)) =
                   Inr (spec_parse (''Answer Status:'' @ rest))
               \<and> evaluate_with_llm_judge w self q a =
                   Inr \<lparr>evaluation = PStr (''Answer Status:'' @ rest),
                        is_solved = spec_parse (''Answer Status:'' @ rest)\<rparr>"
      by blast
  next
    assume "\<not> sublist ''Answer Status:'' t"
    with last_evaluation_part_str[of t]
    have "last_evaluation_part (PStr t) = Inr (PStr t)" by blast
    from eval[OF this]
    show "evaluate_with_llm_judge w self q a = Inr \<lparr>evaluation = PStr t, is_solved = spec_parse t\<rparr>" .
  next
    show "parse_evaluation_result w (PStr t) = Inr (spec_parse t)"
      by (rule parse_quiet_str[OF quiet])
  qed
qed

theorem marker_truncation_witness:
  "(\<forall>m. log_py (example_world (Inr (example_ok_response ''{}'' (PDict [(''generated_text'', PStr echo_text)])))) m = None)
   \<and> extract_generated_text (PDict [(''generated_text'', PStr echo_text)]) = Inr (PStr echo_text)
   \<and> sublist ''Answer Status:'' echo_text
   \<and> (\<exists>before rest. echo_text = before @ ''Answer Status:'' @ rest
         \<and> \<not> sublist ''Answer Status:'' (tl (''Answer Status:'' @ rest))
         \<and> evaluate_with_llm_judge
               (example_world (Inr (example_ok_response ''{}'' (PDict [(''generated_text'', PStr echo_text)]))))
               example_collector ''List two colors.'' ''Red and blue.'' =
             Inr \<lparr>evaluation = PStr (''Answer Status:'' @ rest),
                  is_solved = spec_parse (''Answer Status:'' @ rest)\<rparr>)
   \<and> evaluate_with_llm_judge
         (example_world (Inr (example_ok_response ''{}'' (PDict [(''generated_text'', PStr echo_text)]))))
         example_collector ''List two colors.'' ''Red and blue.'' =
       Inr \<lparr>evaluation = PStr ''Answer Status: Unsolved\<newline>Reason: incomplete'', is_solved = False\<rparr>"
proof -
  let ?resp = "example_ok_response ''{}'' (PDict [(''generated_text'', PStr echo_text)])"
  let ?w = "example_world (Inr ?resp)"
  have quiet: "\<forall>m. log_py ?w m = None"
    by (simp add: example_world_def)
  have call: "requests_post ?w (judge_model_url example_collector)
                (judge_request ''List two colors.'' ''Red and blue.'') = Inr ?resp"
    by (simp add: example_world_def)
  have ok: "status_code ?resp = 200"
    by (simp add: example_ok_response_def)
  have body: "json ?resp = Inr (PDict [(''generated_text'', PStr echo_text)])"
    by (simp add: example_ok_response_def)
  have extracted: "extract_generated_text (PDict [(''generated_text'', PStr echo_text)]) = Inr (PStr echo_text)"
    by (simp add: extract_generated_text_def py_contains_def py_getitem_def bind_exc_def)
  have occurs: "sublist ''Answer Status:'' echo_text"
    by code_simp
  have run: "evaluate_with_llm_judge ?w example_collector ''List two colors.'' ''Red and blue.'' =
       Inr \<lparr>evaluation = PStr ''Answer Status: Unsolved\<newline>Reason: incomplete'', is_solved = False\<rparr>"
    unfolding evaluate_unfold by code_simp
  show ?thesis
    using marker_truncation [OF quiet call ok body extracted] quiet extracted occurs run
    by blast
qed





section \<open>Construction\<close>

text \<open>
  C8. When \<^verbatim>\<open>FAC_JUDGE_MODEL_URL\<close> is unset or empty, constructing the collector raises
  (the \<^verbatim>\<open>ValueError\<close> of line 90 when the base class constructor returns), so no
  collector exists to process a query. A collector that is constructed has the value of
  the variable as its URL: there is no default.
\<close>

theorem judge_url_required:
  "((getenv w ''FAC_JUDGE_MODEL_URL'' = None \<or> getenv w ''FAC_JUDGE_MODEL_URL'' = Some []) \<longrightarrow>
      (\<exists>e. FACMetricCollector_init w = Inl e)
      \<and> (super_init w = None \<longrightarrow>
           FACMetricCollector_init w =
             Inl (PyException ''ValueError'' ''FAC_JUDGE_MODEL_URL environment variable is required'')))
   \<and> (\<forall>c. FACMetricCollector_init w = Inr c \<longrightarrow>
           getenv w ''FAC_JUDGE_MODEL_URL'' = Some (judge_model_url c)
           \<and> judge_model_url c \<noteq> [] \<and> query_results c = None)"
  by (auto simp: FACMetricCollector_init_def bind_exc_def call_raising_def
        split: option.splits if_splits)

theorem judge_url_required_witness:
  "getenv ((example_world (Inl (PyException ''ConnectionError'' ''refused'')))\<lparr>getenv := (\<lambda>name. None)\<rparr>)
       ''FAC_JUDGE_MODEL_URL'' = None
   \<and> FACMetricCollector_init
         ((example_world (Inl (PyException ''ConnectionError'' ''refused'')))\<lparr>getenv := (\<lambda>name. None)\<rparr>) =
       Inl (PyException ''ValueError'' ''FAC_JUDGE_MODEL_URL environment variable is required'')
   \<and> FACMetricCollector_init (example_world (Inl (PyException ''ConnectionError'' ''refused''))) =
       Inr \<lparr>query_results = None, judge_model_url = ''http://judge.example/generate''\<rparr>
   \<and> getenv (example_world (Inl (PyException ''ConnectionError'' ''refused''))) ''FAC_JUDGE_MODEL_URL'' =
       Some ''http://judge.example/generate''"
proof -
  let ?w = "example_world (Inl (PyException ''ConnectionError'' ''refused''))"
  have unset: "getenv (?w\<lparr>getenv := (\<lambda>name. None)\<rparr>) ''FAC_JUDGE_MODEL_URL'' = None"
    by simp
  have base: "super_init (?w\<lparr>getenv := (\<lambda>name. None)\<rparr>) = None"
    by (simp add: example_world_def)
  have built: "FACMetricCollector_init ?w =
       Inr \<lparr>query_results = None, judge_model_url = ''http://judge.example/generate''\<rparr>"
    by (simp add: FACMetricCollector_init_def example_world_def bind_exc_def call_raising_def)
  show ?thesis
    using judge_url_required [of "?w\<lparr>getenv := (\<lambda>name. None)\<rparr>"]
          judge_url_required [of ?w] unset base built
    by simp
qed

section \<open>Reporting the rate\<close>

lemma solved_queries_count:
  "sum_list (map (\<lambda>is_solved. 1) (filter (\<lambda>is_solved. is_solved) results)) = count_list results True"
  by (induction results) simp_all

text \<open>
  C6. \<^verbatim>\<open>report_results\<close> returns, under the one name
  \<^verbatim>\<open>Average Task Success (FAC Evaluator)\<close>, the number of true entries of
  \<^verbatim>\<open>query_results\<close> divided by the number of entries, and 0 for the empty list. The
  summary line it logs first is taken to be written.
\<close>

theorem report_results_rate:
  assumes quiet: "\<forall>m. log_py w m = None"
    and stored: "query_results self = Some results"
  shows "report_results w self =
           Inr [(''Average Task Success (FAC Evaluator)'',
                 if length results > 0 then real (count_list results True) / real (length results)
                 else 0)]
       \<and> (results = [] \<longrightarrow> report_results w self = Inr [(''Average Task Success (FAC Evaluator)'', 0)])
       \<and> get_collected_metrics_names = [''Average Task Success (FAC Evaluator)'']"
  using quiet stored
  unfolding report_results_def solved_queries_count
  by (simp add: bind_exc_def call_raising_def get_collected_metrics_names_def Let_def)

theorem report_results_rate_witness:
  "(\<forall>m. log_py (example_world (Inr solved_response)) m = None)
   \<and> report_results (example_world (Inr solved_response))
         (example_collector\<lparr>query_results := Some [True, True, False, True]\<rparr>) =
       Inr [(''Average Task Success (FAC Evaluator)'', 3 / 4)]
   \<and> report_results (example_world (Inr solved_response)) example_collector =
       Inr [(''Average Task Success (FAC Evaluator)'', 0)]"
proof -
  have quiet: "\<forall>m. log_py (example_world (Inr solved_response)) m = None"
    by (simp add: example_world_def)
  have four: "query_results (example_collector\<lparr>query_results := Some [True, True, False, True]\<rparr>) =
                Some [True, True, False, True]"
    by simp
  have none: "query_results example_collector = Some []"
    by (simp add: example_collector_def)
  show ?thesis
    using report_results_rate [OF quiet four] report_results_rate [OF quiet none] quiet
    by simp
qed

section \<open>Recording a measurement\<close>

lemma append_result_Some:
  "query_results self = Some results \<Longrightarrow>
     append_result self b = Inr (self\<lparr>query_results := Some (results @ [b])\<rparr>)"
  by (simp add: append_result_def)

lemma register_measurement_one_entry:
  assumes verbose: "\<forall>m. log_verbose w m = None"
    and stored: "query_results self = Some results"
  shows "\<exists>b. register_measurement w self query_spec response =
               Inr (self\<lparr>query_results := Some (results @ [b])\<rparr>)"
  using stored
  by (auto simp: register_measurement_def measurement_body_def Let_def append_result_Some
        log_judge_output_def log_each_quiet[OF verbose] verbose call_raising_def bind_exc_def
        split: sum.splits)

lemma run_measurements_count:
  assumes "\<forall>call \<in> set calls. \<forall>m. log_verbose (fst call) m = None"
    and "query_results self = Some results"
  shows "\<exists>self' results'. run_measurements self calls = Inr self'
            \<and> query_results self' = Some results'
            \<and> length results' = length results + length calls"
  using assms
proof (induction calls arbitrary: self results)
  case Nil
  then show ?case by simp
next
  case (Cons call calls)
  obtain w query_spec response where call: "call = (w, query_spec, response)"
    by (cases call) auto
  from Cons.prems call have "\<forall>m. log_verbose w m = None" by simp
  from register_measurement_one_entry[OF this Cons.prems(2), of query_spec response]
  obtain b where
    step: "register_measurement w self query_spec response =
             Inr (self\<lparr>query_results := Some (results @ [b])\<rparr>)"
    by blast
  have "\<exists>self' results'. run_measurements (self\<lparr>query_results := Some (results @ [b])\<rparr>) calls = Inr self'
            \<and> query_results self' = Some results'
            \<and> length results' = length (results @ [b]) + length calls"
    using Cons.prems(1) by (intro Cons.IH) simp_all
  then show ?case
    by (auto simp: call step bind_exc_def)
qed

text \<open>
  C2. The claim: every call of \<^verbatim>\<open>register_measurement\<close> appends exactly one boolean,
  whatever fails inside it, logging included. The code appends the verdict and then
  logs inside the same \<^verbatim>\<open>try\<close>; when \<^verbatim>\<open>log_verbose\<close> raises there, the handler
  appends \<^verbatim>\<open>False\<close> as well. In the world below, one call on a collector fresh from
  \<^verbatim>\<open>set_up\<close> leaves two entries.
  The two lemmas before it show that exactly one entry is appended per call whenever
  \<^verbatim>\<open>log_verbose\<close> returns.
\<close>

theorem register_measurement_appends_twice:
  "bind_exc (FACMetricCollector_init verbose_failure_world) (set_up verbose_failure_world) =
     Inr example_collector
   \<and> register_measurement verbose_failure_world example_collector
         \<lparr>query = ''List two colors.''\<rparr> (PStr ''Red and blue.'') =
       Inr (example_collector\<lparr>query_results := Some [True, False]\<rparr>)"
proof
  show "bind_exc (FACMetricCollector_init verbose_failure_world) (set_up verbose_failure_world) =
          Inr example_collector"
    by (simp add: FACMetricCollector_init_def set_up_def verbose_failure_world_def example_world_def
          example_collector_def bind_exc_def call_raising_def)
  show "register_measurement verbose_failure_world example_collector
          \<lparr>query = ''List two colors.''\<rparr> (PStr ''Red and blue.'') =
        Inr (example_collector\<lparr>query_results := Some [True, False]\<rparr>)"
    unfolding register_measurement_def measurement_body_def evaluate_unfold
    by code_simp
qed

end
